theory Spec2Isabelle
  imports Main "HOL-Library.Word" "HOL-Library.Sublist"
begin

section \<open>Machine types and transport constants\<close>

text \<open>
  The target is a 32-bit microcontroller: \<open>size_t\<close> and \<open>uint32_t\<close> are 32-bit words,
  the transport's buffer lengths are 16-bit, its error codes are signed 8-bit values
  (an \<open>8 word\<close>, read through \<open>sint\<close>).
\<close>

type_synonym u8 = "8 word"
type_synonym u16 = "16 word"
type_synonym u32 = "32 word"
type_synonym err_t = "8 word"

text \<open>
  The error codes the client compares against or returns. Their values are those of the
  table in \<open>AsyncClient::errorToString\<close>: 0 is "OK", -5 is "Operation in progress",
  -8 is "Connection aborted".
\<close>

definition ERR_OK :: err_t where
  "ERR_OK = 0"

definition ERR_INPROGRESS :: err_t where
  "ERR_INPROGRESS = - 5"

definition ERR_ABRT :: err_t where
  "ERR_ABRT = - 8"

section \<open>Data model\<close>

text \<open>
  The transport's connection handle, \<open>tcp_pcb\<close>. The client reads two of its fields:
  the protocol state (\<open>_pcb->state\<close>) and the free send window (\<open>_pcb->snd_buf\<close>,
  which is also what \<open>tcp_sndbuf\<close> reports). \<open>ident\<close> names the handle in the
  log of transport calls. The five flags are what the client has registered on the handle
  through \<open>tcp_arg\<close>, \<open>tcp_recv\<close>, \<open>tcp_sent\<close>, \<open>tcp_err\<close> and
  \<open>tcp_poll\<close>: the context is this client, and the callback is the client's own.
\<close>

record tcp_pcb =
  ident :: nat
  tcp_state :: u8
  snd_buf :: u16
  cb_arg :: bool
  cb_recv :: bool
  cb_sent :: bool
  cb_err :: bool
  cb_poll :: bool

text \<open>One buffer of an inbound chain (\<open>pbuf\<close>); the chain itself is a list, the
  null chain is the empty list.\<close>

record pbuf =
  payload :: "u8 list"
  len :: u16

text \<open>An application callback together with its opaque argument; a null function
  pointer is \<open>None\<close> in the slot that holds it.\<close>

type_synonym handler = nat

datatype invocation =
    OnConnect
  | OnDisconnect
  | OnAck u16 u32
  | OnError err_t
  | OnData "u8 list" u16
  | OnTimeout u32
  | OnPoll

text \<open>
  What the client does to the outside: calls into the transport, and invocations of
  application callbacks. A transport call carries the handle it is made on;
  \<open>tcp_recved\<close> is also reached with a null handle, hence the option, and its length
  is the transport's 16-bit length: a wider value of the source is cut to it at the call.
  The flag of a registration call tells whether a callback (or context) is installed or
  cleared.
\<close>

datatype event =
    Tcp_setprio nat
  | Tcp_arg nat bool
  | Tcp_recv nat bool
  | Tcp_sent nat bool
  | Tcp_err nat bool
  | Tcp_poll nat bool u8
  | Tcp_connect nat u32 u16
  | Tcp_write nat "u8 list"
  | Tcp_output nat
  | Tcp_recved "nat option" u16
  | Tcp_close nat
  | Tcp_abort nat
  | Pbuf_free
  | Dns_gethostbyname string
  | Callback handler invocation

text \<open>
  The fields of \<open>AsyncClient\<close>, under the source's names without the leading
  underscore, and two fields of the surroundings: \<open>clock\<close> is what \<open>millis()\<close>
  returns, \<open>trace\<close> is the log of events so far, oldest first.
\<close>

record client =
  pcb :: "tcp_pcb option"
  connect_cb :: "handler option"
  discard_cb :: "handler option"
  sent_cb :: "handler option"
  error_cb :: "handler option"
  recv_cb :: "handler option"
  timeout_cb :: "handler option"
  poll_cb :: "handler option"
  pcb_busy :: bool
  pcb_sent_at :: u32
  close_pcb :: bool
  ack_pcb :: bool
  rx_ack_len :: u32
  rx_last_packet :: u32
  rx_since_timeout :: u32
  ack_timeout :: u32
  connect_port :: u16
  clock :: u32
  trace :: "event list"

text \<open>
  Everything the source calls and does not define is a parameter: the behaviour of the
  application's callbacks (\<open>run_cb\<close>, any function on the client's state, so that a
  handler may call back into the client), the name resolver, the routing table, the
  allocator of handles, and the results of the transport's write, flush and close.
  The write and the flush return the handle as the transport leaves it. \<open>tcp_abort\<close>
  is what the transport reports while it aborts a handle: the error code that it passes
  to the error callback registered on the handle, or \<open>None\<close> when it makes no report.
\<close>

record env =
  run_cb :: "handler \<Rightarrow> invocation \<Rightarrow> client \<Rightarrow> client"
  dns_gethostbyname :: "string \<Rightarrow> err_t \<times> u32"
  ip_route :: "u32 \<Rightarrow> bool"
  tcp_new :: "tcp_pcb option"
  tcp_write :: "tcp_pcb \<Rightarrow> u8 list \<Rightarrow> err_t \<times> tcp_pcb"
  tcp_output :: "tcp_pcb \<Rightarrow> err_t \<times> tcp_pcb"
  tcp_close :: "tcp_pcb \<Rightarrow> err_t"
  tcp_abort :: "tcp_pcb \<Rightarrow> err_t option"

section \<open>Logging and callback invocation\<close>

definition emit :: "event list \<Rightarrow> client \<Rightarrow> client" where
  "emit es w = w\<lparr>trace := trace w @ es\<rparr>"

text \<open>\<open>if(cb) cb(arg, this, ...)\<close>: nothing when the slot is empty, otherwise the
  invocation is logged and the handler runs.\<close>

definition invoke :: "env \<Rightarrow> handler option \<Rightarrow> invocation \<Rightarrow> client \<Rightarrow> client" where
  "invoke E cb what w =
     (case cb of
        None \<Rightarrow> w
      | Some h \<Rightarrow> run_cb E h what (emit [Callback h what] w))"

section \<open>The client's operations\<close>

text \<open>
  The constructor \<open>AsyncClient::AsyncClient(tcp_pcb*)\<close>. Its initialiser list leaves
  out \<open>_rx_ack_len\<close> and \<open>_poll_cb\<close>, and \<open>ASYNC_MAX_ACK_TIME\<close> is defined outside
  the source file: the three values are parameters, as is the reading of the clock. On a
  handle it registers the context and the four callbacks.
\<close>

definition AsyncClient ::
  "tcp_pcb option \<Rightarrow> u32 \<Rightarrow> u32 \<Rightarrow> handler option \<Rightarrow> u32 \<Rightarrow> client" where
  "AsyncClient p max_ack_time rx0 poll0 now =
     \<lparr>pcb = map_option
              (\<lambda>q. q\<lparr>cb_arg := True, cb_recv := True, cb_sent := True, cb_err := True,
                      cb_poll := True\<rparr>) p,
      connect_cb = None, discard_cb = None, sent_cb = None, error_cb = None,
      recv_cb = None, timeout_cb = None, poll_cb = poll0,
      pcb_busy = False, pcb_sent_at = 0, close_pcb = False, ack_pcb = True,
      rx_ack_len = rx0, rx_last_packet = 0, rx_since_timeout = 0,
      ack_timeout = max_ack_time, connect_port = 0, clock = now,
      trace = (case p of
                 None \<Rightarrow> []
               | Some q \<Rightarrow>
                   [Tcp_setprio (ident q), Tcp_arg (ident q) True, Tcp_recv (ident q) True,
                    Tcp_sent (ident q) True, Tcp_err (ident q) True,
                    Tcp_poll (ident q) True 1])\<rparr>"

text \<open>\<open>AsyncClient::state\<close>, \<open>space\<close>, \<open>canSend\<close>.\<close>

definition state :: "client \<Rightarrow> u8" where
  "state w = (case pcb w of None \<Rightarrow> 0 | Some p \<Rightarrow> tcp_state p)"

definition space :: "client \<Rightarrow> u32" where
  "space w =
     (case pcb w of
        None \<Rightarrow> 0
      | Some p \<Rightarrow> if tcp_state p = 4 then ucast (snd_buf p) else 0)"

definition canSend :: "client \<Rightarrow> bool" where
  "canSend w \<longleftrightarrow> space w > 0"

text \<open>\<open>AsyncClient::stateToString\<close>.\<close>

definition stateToString :: "client \<Rightarrow> string" where
  "stateToString w =
     (let s = state w in
      if s = 0 then ''Closed''
      else if s = 1 then ''Listen''
      else if s = 2 then ''SYN Sent''
      else if s = 3 then ''SYN Received''
      else if s = 4 then ''Established''
      else if s = 5 then ''FIN Wait 1''
      else if s = 6 then ''FIN Wait 2''
      else if s = 7 then ''Close Wait''
      else if s = 8 then ''Closing''
      else if s = 9 then ''Last ACK''
      else if s = 10 then ''Time Wait''
      else ''UNKNOWN'')"

text \<open>\<open>AsyncClient::errorToString\<close>, on the signed value of the code.\<close>

definition errorToString :: "err_t \<Rightarrow> string" where
  "errorToString e =
     (let c = sint e in
      if c = 0 then ''OK''
      else if c = - 1 then ''Out of memory error''
      else if c = - 2 then ''Buffer error''
      else if c = - 3 then ''Timeout''
      else if c = - 4 then ''Routing problem''
      else if c = - 5 then ''Operation in progress''
      else if c = - 6 then ''Illegal value''
      else if c = - 7 then ''Operation would block''
      else if c = - 8 then ''Connection aborted''
      else if c = - 9 then ''Connection reset''
      else if c = - 10 then ''Connection closed''
      else if c = - 11 then ''Not connected''
      else if c = - 12 then ''Illegal argument''
      else if c = - 13 then ''Address in use''
      else if c = - 14 then ''Low-level netif error''
      else if c = - 15 then ''Already connected''
      else if c = - 55 then ''DNS failed''
      else ''UNKNOWN'')"

text \<open>
  \<open>AsyncClient::_error\<close>: the transport's error callback. With a handle held it
  clears the five registrations on it and drops it; then the error handler and the
  disconnect handler, each if installed.
\<close>

definition priv_error :: "env \<Rightarrow> err_t \<Rightarrow> client \<Rightarrow> client" where
  "priv_error E err w =
     (let w1 = (case pcb w of
                  None \<Rightarrow> w
                | Some p \<Rightarrow>
                    (emit [Tcp_arg (ident p) False, Tcp_sent (ident p) False,
                           Tcp_recv (ident p) False, Tcp_err (ident p) False,
                           Tcp_poll (ident p) False 0] w)
                      \<lparr>pcb := None\<rparr>);
          w2 = invoke E (error_cb w1) (OnError err) w1
      in invoke E (discard_cb w2) OnDisconnect w2)"

text \<open>
  \<open>AsyncClient::abort\<close>: \<open>tcp_abort\<close> on the handle, when one is held, and then
  the handle is dropped; the result is always \<open>ERR_ABRT\<close>. The source makes the call
  with whatever is registered on the handle at that moment. When the error callback
  and the context are registered and the transport reports the abort, the report runs
  \<open>_error\<close> inside the call, while the client still holds the handle.
\<close>

definition abort :: "env \<Rightarrow> client \<Rightarrow> err_t \<times> client" where
  "abort E w =
     (case pcb w of
        None \<Rightarrow> (ERR_ABRT, w)
      | Some p \<Rightarrow>
          (let w1 = emit [Tcp_abort (ident p)] w;
               w2 = (if cb_err p \<and> cb_arg p
                     then (case tcp_abort E p of
                             None \<Rightarrow> w1
                           | Some e \<Rightarrow> priv_error E e w1)
                     else w1)
           in (ERR_ABRT, w2\<lparr>pcb := None\<rparr>)))"

text \<open>\<open>AsyncClient::_close\<close>: the five registrations are cleared before the
  graceful close, and so before the abort that follows a failed one.\<close>

definition priv_close :: "env \<Rightarrow> client \<Rightarrow> err_t \<times> client" where
  "priv_close E w =
     (case pcb w of
        None \<Rightarrow> (ERR_OK, w)
      | Some p \<Rightarrow>
          (let p1 = p\<lparr>cb_arg := False, cb_sent := False, cb_recv := False,
                      cb_err := False, cb_poll := False\<rparr>;
               w1 = (emit [Tcp_arg (ident p) False, Tcp_sent (ident p) False,
                           Tcp_recv (ident p) False, Tcp_err (ident p) False,
                           Tcp_poll (ident p) False 0, Tcp_close (ident p)] w)
                      \<lparr>pcb := Some p1\<rparr>;
               err = tcp_close E p1;
               r = (if err \<noteq> ERR_OK then abort E w1 else (err, w1));
               w3 = (snd r)\<lparr>pcb := None\<rparr>
           in (fst r, invoke E (discard_cb w3) OnDisconnect w3)))"

text \<open>\<open>AsyncClient::close\<close>: the acknowledgment of the backlog is issued on
  \<open>_pcb\<close> whatever it holds.\<close>

definition close :: "env \<Rightarrow> bool \<Rightarrow> client \<Rightarrow> client" where
  "close E now w =
     (let w1 = emit [Tcp_recved (map_option ident (pcb w)) (ucast (rx_ack_len w))] w
      in if now then snd (priv_close E w1) else w1\<lparr>close_pcb := True\<rparr>)"

definition stop :: "env \<Rightarrow> client \<Rightarrow> client" where
  "stop E w = close E False w"

text \<open>\<open>AsyncClient::ack\<close>: \<open>l\<close> is \<open>len\<close> after the clamp; the call to
  \<open>tcp_recved\<close> is made on \<open>_pcb\<close> whatever it holds.\<close>

definition ack :: "u32 \<Rightarrow> client \<Rightarrow> u32 \<times> client" where
  "ack n w =
     (let l = (if n > rx_ack_len w then rx_ack_len w else n);
          w1 = (if l \<noteq> 0
                then emit [Tcp_recved (map_option ident (pcb w)) (ucast l)] w
                else w)
      in (l, w1\<lparr>rx_ack_len := rx_ack_len w1 - l\<rparr>))"

text \<open>
  \<open>AsyncClient::write(const char*, size_t)\<close>. The data pointer is \<open>None\<close> when
  null; \<open>data + will_send\<close> drops the bytes already queued. The recursion is the
  source's own; \<open>sz\<close> is its parameter \<open>size\<close>.
\<close>

function write_n :: "env \<Rightarrow> u8 list option \<Rightarrow> u32 \<Rightarrow> client \<Rightarrow> u32 \<times> client" where
  "write_n E data sz w =
     (case pcb w of
        None \<Rightarrow> (0, w)
      | Some p \<Rightarrow>
          (case data of
             None \<Rightarrow> (0, w)
           | Some d \<Rightarrow>
               if sz = 0 then (0, w)
               else if \<not> canSend w then (0, w)
               else
                 (let room = (ucast (snd_buf p) :: u32);
                      will_send = (if room < sz then room else sz);
                      r1 = tcp_write E p (take (unat will_send) d);
                      w1 = (emit [Tcp_write (ident p) (take (unat will_send) d)] w)
                             \<lparr>pcb := Some (snd r1)\<rparr>
                  in if fst r1 \<noteq> ERR_OK then (0, w1)
                     else
                       (let r2 = tcp_output E (snd r1);
                            w2 = (emit [Tcp_output (ident (snd r1))] w1)
                                   \<lparr>pcb := Some (snd r2)\<rparr>
                        in if fst r2 \<noteq> ERR_OK then (0, w2)
                           else
                             (let w3 = w2\<lparr>pcb_sent_at := clock w2, pcb_busy := True\<rparr>
                              in if will_send < sz
                                 then
                                   (let r3 = write_n E (Some (drop (unat will_send) d))
                                               (sz - will_send) w3
                                    in (will_send + fst r3, snd r3))
                                 else (sz, w3))))))"
  by pat_completeness auto
termination
proof (relation "measure (\<lambda>(E, data, sz, w). unat sz)", goal_cases)
  case 1
  show ?case by simp
next
  case (2 E data sz w p d room will_send r1 w1 r2 w2 w3)
  from \<open>\<not> \<not> canSend w\<close> \<open>pcb w = Some p\<close> \<open>room = ucast (snd_buf p)\<close>
  have room_pos: "0 < room"
    by (auto simp: canSend_def space_def split: if_splits)
  from \<open>will_send < sz\<close> \<open>will_send = (if room < sz then room else sz)\<close>
  have ws: "will_send = room" "room < sz"
    by (auto split: if_splits)
  from ws(2) have "unat (sz - room) = unat sz - unat room"
    by (simp add: unat_sub less_imp_le)
  moreover from room_pos have "0 < unat room"
    by (simp add: word_greater_zero_iff unat_gt_0)
  moreover from ws(2) have "unat room < unat sz"
    by (simp add: word_less_nat_alt)
  ultimately show ?case using ws(1) by simp
qed

declare write_n.simps [simp del]

text \<open>
  \<open>AsyncClient::connect(IPAddress, uint16_t)\<close>. The new handle stays local to the
  call: the client holds it only once the transport reports the connection.
\<close>

definition connect :: "env \<Rightarrow> u32 \<Rightarrow> u16 \<Rightarrow> client \<Rightarrow> bool \<times> client" where
  "connect E ip port w =
     (if pcb w \<noteq> None then (False, w)
      else if \<not> ip_route E ip then (False, w)
      else
        (case tcp_new E of
           None \<Rightarrow> (False, w)
         | Some p \<Rightarrow>
             (True,
              emit [Tcp_arg (ident p) True, Tcp_err (ident p) True,
                    Tcp_connect (ident p) ip port] w)))"

text \<open>\<open>AsyncClient::connect(const char*, uint16_t)\<close>.\<close>

definition connect_host :: "env \<Rightarrow> string \<Rightarrow> u16 \<Rightarrow> client \<Rightarrow> bool \<times> client" where
  "connect_host E host port w =
     (let r = dns_gethostbyname E host;
          w1 = emit [Dns_gethostbyname host] w
      in if fst r = ERR_OK then connect E (snd r) port w1
         else if fst r = ERR_INPROGRESS then (True, w1\<lparr>connect_port := port\<rparr>)
         else (False, w1))"

text \<open>\<open>AsyncClient::_connected\<close>, with the handle the transport passes.\<close>

definition priv_connected :: "env \<Rightarrow> tcp_pcb option \<Rightarrow> err_t \<Rightarrow> client \<Rightarrow> err_t \<times> client" where
  "priv_connected E p err w =
     (let w1 = w\<lparr>pcb := p\<rparr>;
          w2 = (case p of
                  None \<Rightarrow> w1
                | Some q \<Rightarrow>
                    (emit [Tcp_setprio (ident q), Tcp_recv (ident q) True,
                           Tcp_sent (ident q) True, Tcp_poll (ident q) True 1] w1)
                      \<lparr>pcb := Some (q\<lparr>cb_recv := True, cb_sent := True, cb_poll := True\<rparr>),
                        pcb_busy := False\<rparr>)
      in (ERR_OK, invoke E (connect_cb w2) OnConnect w2))"


text \<open>
  The loop of \<open>AsyncClient::_recv\<close> over the chain: one round per buffer. The automatic
  acknowledgment goes to the handle \<open>p\<close> that the transport passed.
\<close>

fun recv_loop :: "env \<Rightarrow> nat \<Rightarrow> pbuf list \<Rightarrow> client \<Rightarrow> client" where
  "recv_loop E p [] w = w"
| "recv_loop E p (b # pb) w =
     (let w1 = w\<lparr>ack_pcb := True\<rparr>;
          w2 = invoke E (recv_cb w1) (OnData (payload b) (len b)) w1;
          w3 = (if \<not> ack_pcb w2
                then w2\<lparr>rx_ack_len := rx_ack_len w2 + ucast (len b)\<rparr>
                else emit [Tcp_recved (Some p) (ucast (len b))] w2)
      in recv_loop E p pb (emit [Pbuf_free] w3))"

text \<open>\<open>AsyncClient::_recv\<close>.\<close>

definition priv_recv :: "env \<Rightarrow> nat \<Rightarrow> pbuf list \<Rightarrow> err_t \<Rightarrow> client \<Rightarrow> err_t \<times> client" where
  "priv_recv E p pb err w =
     (if pb = [] then priv_close E w
      else (ERR_OK, recv_loop E p pb (w\<lparr>rx_last_packet := clock w\<rparr>)))"

text \<open>\<open>AsyncClient::_poll\<close>, the periodic tick.\<close>

definition priv_poll :: "env \<Rightarrow> client \<Rightarrow> err_t \<times> client" where
  "priv_poll E w =
     (if close_pcb w then (ERR_OK, snd (priv_close E (w\<lparr>close_pcb := False\<rparr>)))
      else
        (let now = clock w
         in if pcb_busy w \<and> ack_timeout w \<noteq> 0 \<and> now - pcb_sent_at w \<ge> ack_timeout w
            then
              (let w1 = w\<lparr>pcb_busy := False\<rparr>
               in (ERR_OK, invoke E (timeout_cb w1) (OnTimeout (now - pcb_sent_at w1)) w1))
            else if rx_since_timeout w \<noteq> 0
                    \<and> now - rx_last_packet w \<ge> rx_since_timeout w * 1000
            then (ERR_OK, snd (priv_close E w))
            else (ERR_OK, invoke E (poll_cb w) OnPoll w)))"

text \<open>\<open>AsyncClient::_dns_found\<close>; a null address is \<open>None\<close>.\<close>

definition priv_dns_found :: "env \<Rightarrow> u32 option \<Rightarrow> client \<Rightarrow> client" where
  "priv_dns_found E ipaddr w =
     (case ipaddr of
        Some a \<Rightarrow> snd (connect E a (connect_port w) w)
      | None \<Rightarrow>
          (let w1 = invoke E (error_cb w) (OnError (- 55)) w
           in invoke E (discard_cb w1) OnDisconnect w1))"

text \<open>The callback setters: a slot holds one handler, setting replaces it.\<close>

definition onDisconnect :: "handler option \<Rightarrow> client \<Rightarrow> client" where
  "onDisconnect cb w = w\<lparr>discard_cb := cb\<rparr>"

definition onError :: "handler option \<Rightarrow> client \<Rightarrow> client" where
  "onError cb w = w\<lparr>error_cb := cb\<rparr>"

definition onData :: "handler option \<Rightarrow> client \<Rightarrow> client" where
  "onData cb w = w\<lparr>recv_cb := cb\<rparr>"

section \<open>Observations on the log\<close>

text \<open>The callbacks invoked, in order.\<close>

fun fired :: "event list \<Rightarrow> (handler \<times> invocation) list" where
  "fired [] = []"
| "fired (Callback h a # es) = (h, a) # fired es"
| "fired (e # es) = fired es"

text \<open>The number of bytes acknowledged to the transport: the lengths of the
  \<open>tcp_recved\<close> calls made on a handle. A call on the null handle acknowledges
  nothing.\<close>

fun recved_bytes :: "event list \<Rightarrow> nat" where
  "recved_bytes [] = 0"
| "recved_bytes (Tcp_recved (Some i) n # es) = unat n + recved_bytes es"
| "recved_bytes (e # es) = recved_bytes es"

text \<open>What a slot contributes to the list of invocations.\<close>

definition slot :: "handler option \<Rightarrow> invocation \<Rightarrow> (handler \<times> invocation) list" where
  "slot cb a = (case cb of None \<Rightarrow> [] | Some h \<Rightarrow> [(h, a)])"

text \<open>
  The discipline of the application's handlers under which the order of callbacks is
  stated: a handler may call back into the client (acknowledge, write, request a deferred
  close, change the time-outs), but it does not rebind the disconnect slot, does
  not itself cause a callback to be invoked, only extends the log, and cannot give the
  client a handle.
\<close>

definition confined :: "env \<Rightarrow> bool" where
  "confined E \<longleftrightarrow>
     (\<forall>h a w.
        discard_cb (run_cb E h a w) = discard_cb w
        \<and> fired (trace (run_cb E h a w)) = fired (trace w)
        \<and> prefix (trace w) (trace (run_cb E h a w))
        \<and> (pcb w = None \<longrightarrow> pcb (run_cb E h a w) = None))"

section \<open>The decision of the tick, in the source's arithmetic\<close>

text \<open>
  The four actions of the supervisor, and the choice that \<open>_poll\<close> makes among them,
  with the source's own comparisons on 32-bit values: a pending deferred close; else an
  acknowledgment time-out (a send in flight, a nonzero threshold, the elapsed time at
  least the threshold), carrying the elapsed time; else an idle-receive time-out (a
  nonzero threshold, its 32-bit product with 1000 at most the elapsed time); else the
  poll.
\<close>

datatype tick_action = Deferred_close | Ack_timeout u32 | Idle_close | Poll

definition ack_timed_out :: "client \<Rightarrow> bool" where
  "ack_timed_out w \<longleftrightarrow>
     pcb_busy w \<and> ack_timeout w \<noteq> 0 \<and> ack_timeout w \<le> clock w - pcb_sent_at w"

definition idle_timed_out :: "client \<Rightarrow> bool" where
  "idle_timed_out w \<longleftrightarrow>
     rx_since_timeout w \<noteq> 0 \<and> rx_since_timeout w * 1000 \<le> clock w - rx_last_packet w"

definition tick_action :: "client \<Rightarrow> tick_action" where
  "tick_action w =
     (if close_pcb w then Deferred_close
      else if ack_timed_out w then Ack_timeout (clock w - pcb_sent_at w)
      else if idle_timed_out w then Idle_close
      else Poll)"

definition perform :: "env \<Rightarrow> tick_action \<Rightarrow> client \<Rightarrow> client" where
  "perform E a w =
     (case a of
        Deferred_close \<Rightarrow> snd (priv_close E (w\<lparr>close_pcb := False\<rparr>))
      | Ack_timeout d \<Rightarrow> invoke E (timeout_cb w) (OnTimeout d) (w\<lparr>pcb_busy := False\<rparr>)
      | Idle_close \<Rightarrow> snd (priv_close E w)
      | Poll \<Rightarrow> invoke E (poll_cb w) OnPoll w)"

text \<open>The callbacks a tick's action invokes, for handlers under the discipline.\<close>

definition closing_calls :: "client \<Rightarrow> (handler \<times> invocation) list" where
  "closing_calls w = (if pcb w = None then [] else slot (discard_cb w) OnDisconnect)"

definition tick_calls :: "client \<Rightarrow> (handler \<times> invocation) list" where
  "tick_calls w =
     (case tick_action w of
        Deferred_close \<Rightarrow> closing_calls w
      | Ack_timeout d \<Rightarrow> slot (timeout_cb w) (OnTimeout d)
      | Idle_close \<Rightarrow> closing_calls w
      | Poll \<Rightarrow> slot (poll_cb w) OnPoll)"

section \<open>The tick as the specification words it\<close>

text \<open>
  The same choice by first match, with the two time-outs as the specification words
  them, on numbers: the elapsed time is the difference of two readings of the 32-bit
  millisecond clock; the acknowledgment time-out is reached when a send is in flight,
  the threshold is nonzero and the elapsed milliseconds are at least the threshold; the
  idle-receive time-out is reached when the threshold is nonzero and the elapsed
  milliseconds are at least the threshold's seconds times 1000.
\<close>

definition ack_timeout_reached :: "client \<Rightarrow> bool" where
  "ack_timeout_reached w \<longleftrightarrow>
     pcb_busy w \<and> ack_timeout w \<noteq> 0
     \<and> unat (ack_timeout w) \<le> unat (clock w - pcb_sent_at w)"

definition idle_timeout_reached :: "client \<Rightarrow> bool" where
  "idle_timeout_reached w \<longleftrightarrow>
     rx_since_timeout w \<noteq> 0
     \<and> unat (rx_since_timeout w) * 1000 \<le> unat (clock w - rx_last_packet w)"

definition supervisor_choice :: "client \<Rightarrow> tick_action" where
  "supervisor_choice w =
     (if close_pcb w then Deferred_close
      else if ack_timeout_reached w then Ack_timeout (clock w - pcb_sent_at w)
      else if idle_timeout_reached w then Idle_close
      else Poll)"

section \<open>Concrete scenarios\<close>

text \<open>
  A transport on which every write and flush succeeds, a write takes the queued bytes out
  of the free send window and nothing gives them back; the graceful close succeeds; an
  abort is reported to the registered error callback with the code for
  "Connection aborted". Its handlers do nothing.
\<close>

definition quiet_env :: env where
  "quiet_env =
     \<lparr>run_cb = (\<lambda>h a w. w),
      dns_gethostbyname = (\<lambda>host. (ERR_INPROGRESS, 0)),
      ip_route = (\<lambda>ip. True),
      tcp_new = Some \<lparr>ident = 2, tcp_state = 0, snd_buf = 0, cb_arg = False,
                       cb_recv = False, cb_sent = False, cb_err = False, cb_poll = False\<rparr>,
      tcp_write = (\<lambda>q bs. (ERR_OK, q\<lparr>snd_buf := snd_buf q - of_nat (length bs)\<rparr>)),
      tcp_output = (\<lambda>q. (ERR_OK, q)),
      tcp_close = (\<lambda>q. ERR_OK),
      tcp_abort = (\<lambda>q. Some ERR_ABRT)\<rparr>"

text \<open>The same surroundings with handlers that call \<open>ack(0)\<close>.\<close>

definition ack0_env :: env where
  "ack0_env = quiet_env\<lparr>run_cb := (\<lambda>h a w. snd (ack 0 w))\<rparr>"

text \<open>The same surroundings with handlers that clear the automatic-acknowledgment
  flag of the delivery in progress.\<close>

definition optout_env :: env where
  "optout_env = quiet_env\<lparr>run_cb := (\<lambda>h a w. w\<lparr>ack_pcb := False\<rparr>)\<rparr>"

text \<open>An established handle with 100 bytes of free send window and the client's
  five registrations on it.\<close>

definition pcb0 :: tcp_pcb where
  "pcb0 = \<lparr>ident = 1, tcp_state = 4, snd_buf = 100, cb_arg = True, cb_recv = True,
            cb_sent = True, cb_err = True, cb_poll = True\<rparr>"

text \<open>A client that holds it, every callback installed, nothing pending, the clock at
  5000 ms, an empty log.\<close>

definition client0 :: client where
  "client0 =
     \<lparr>pcb = Some pcb0,
      connect_cb = Some 10, discard_cb = Some 11, sent_cb = Some 12, error_cb = Some 13,
      recv_cb = Some 14, timeout_cb = Some 15, poll_cb = Some 16,
      pcb_busy = False, pcb_sent_at = 0, close_pcb = False, ack_pcb = True,
      rx_ack_len = 0, rx_last_packet = 0, rx_since_timeout = 0, ack_timeout = 5000,
      connect_port = 0, clock = 5000, trace = []\<rparr>"

text \<open>A client that holds no handle.\<close>

definition client_idle :: client where
  "client_idle = client0\<lparr>pcb := None\<rparr>"

text \<open>A chain of one buffer of 40 bytes.\<close>

definition pbuf40 :: pbuf where
  "pbuf40 = \<lparr>payload = replicate 40 0, len = 40\<rparr>"

text \<open>A payload of 250 bytes.\<close>

definition d250 :: "u8 list" where
  "d250 = replicate 250 7"

text \<open>A client with a send in flight since time 0 and an idle-receive threshold of 5
  seconds: at the clock's 5000 ms both time-outs are due.\<close>

definition client_stalled :: client where
  "client_stalled = client0\<lparr>pcb_busy := True, rx_since_timeout := 5\<rparr>"

text \<open>A client with a backlog of 65536 bytes.\<close>

definition client_backlog :: client where
  "client_backlog = client0\<lparr>rx_ack_len := 65536\<rparr>"

text \<open>A client with an idle-receive threshold of 4294968 seconds, one second after
  its last packet.\<close>

definition client_wrap :: client where
  "client_wrap = client0\<lparr>rx_since_timeout := 4294968, rx_last_packet := 4000\<rparr>"

section \<open>Schedules of sent-confirmations and ticks\<close>








text \<open>The same surroundings with handlers that call back into the client: each
  requests a deferred close and acknowledges up to 5 bytes of backlog.\<close>

definition reentrant_env :: env where
  "reentrant_env = quiet_env\<lparr>run_cb := (\<lambda>h a w. snd (ack 5 (close quiet_env False w)))\<rparr>"

section \<open>Auxiliary facts\<close>

lemma fired_append: "fired (xs @ ys) = fired xs @ fired ys"
  by (induction xs rule: fired.induct) simp_all

lemma recved_bytes_append: "recved_bytes (xs @ ys) = recved_bytes xs + recved_bytes ys"
  by (induction xs rule: recved_bytes.induct) simp_all

lemma unat_ucast_window: "unat (ucast (x :: u16) :: u32) = unat x"
proof -
  have "unat x < 2 ^ 16"
    using unsigned_less [of x] by simp
  then have "unat x < 2 ^ 32"
    by simp
  then show ?thesis
    by (simp add: unsigned_ucast_eq take_bit_nat_eq_self)
qed

lemma ucast_window_zero: "(ucast (x :: u16) :: u32) = 0 \<longleftrightarrow> x = 0"
  using unat_ucast_window [of x] by (metis unsigned_eq_0_iff)

section \<open>State, window and sendability\<close>

text \<open>
  C9. A client that holds no handle reports the state Closed (the value 0, which
  \<open>stateToString\<close> labels "Closed"), cannot send, and reports a free send window of
  zero. \<open>canSend\<close> is true exactly when a handle is held, is in the Established state
  (4) and reports a nonzero free send window; in particular only then.
\<close>

theorem no_handle_closed_cannot_send:
  "(pcb w = None \<longrightarrow>
      state w = 0 \<and> stateToString w = ''Closed'' \<and> \<not> canSend w \<and> space w = 0)
   \<and> (canSend w \<longleftrightarrow> (\<exists>p. pcb w = Some p \<and> tcp_state p = 4 \<and> snd_buf p \<noteq> 0))"
  by (auto simp: state_def stateToString_def canSend_def space_def word_greater_zero_iff
      ucast_window_zero split: option.splits)

theorem no_handle_closed_cannot_send_witness:
  "pcb client_idle = None
   \<and> state client_idle = 0 \<and> stateToString client_idle = ''Closed''
   \<and> \<not> canSend client_idle \<and> space client_idle = 0
   \<and> canSend client0"
  using no_handle_closed_cannot_send [of client_idle] no_handle_closed_cannot_send [of client0]
  by (simp add: client_idle_def client0_def pcb0_def)

section \<open>Explicit acknowledgment\<close>

lemma unat_ucast_length: "unat (ucast (x :: u32) :: u16) = unat x mod 65536"
  by (simp add: unsigned_ucast_eq take_bit_eq_mod)

text \<open>
  C6, as stated, fails for a backlog of 65536 bytes: \<open>ack(65536)\<close> on a client that
  holds a handle returns 65536 and empties the backlog, but the length that reaches
  the transport's 16-bit parameter is 0, so no byte is acknowledged to the transport.
\<close>

theorem ack_length_cut_counterexample:
  "pcb client_backlog = Some pcb0 \<and> rx_ack_len client_backlog = 65536
   \<and> fst (ack 65536 client_backlog) = 65536
   \<and> rx_ack_len (snd (ack 65536 client_backlog)) = 0
   \<and> trace (snd (ack 65536 client_backlog)) = [Tcp_recved (Some 1) 0]
   \<and> recved_bytes (trace (snd (ack 65536 client_backlog))) = 0"
  by (simp add: ack_def Let_def emit_def client_backlog_def client0_def pcb0_def)

text \<open>
  C6, amended. On a client that holds a handle, for every \<open>n\<close> and every backlog
  \<open>b\<close>: \<open>ack n\<close> returns \<open>min n b\<close>, leaves the backlog at \<open>b - min n b\<close>, which as
  an integer is \<open>max 0 (b - n)\<close> and so never below zero, and changes nothing else but
  the log. When \<open>min n b\<close> is nonzero it makes one call of \<open>tcp_recved\<close> on the handle,
  with \<open>min n b\<close> cut to 16 bits; the bytes acknowledged to the transport are
  \<open>min n b\<close> modulo 65536, hence exactly \<open>min n b\<close> whenever that is below 65536.
\<close>

theorem ack_clamps_to_backlog:
  assumes held: "pcb w = Some p"
  shows "ack n w =
     (min n (rx_ack_len w),
      w\<lparr>rx_ack_len := rx_ack_len w - min n (rx_ack_len w),
        trace := trace w @
          (if min n (rx_ack_len w) = 0 then []
           else [Tcp_recved (Some (ident p)) (ucast (min n (rx_ack_len w)))])\<rparr>)
   \<and> uint (rx_ack_len (snd (ack n w))) = max 0 (uint (rx_ack_len w) - uint n)
   \<and> unat (fst (ack n w)) = min (unat n) (unat (rx_ack_len w))
   \<and> recved_bytes (trace (snd (ack n w))) =
       recved_bytes (trace w) + min (unat n) (unat (rx_ack_len w)) mod 65536
   \<and> (min (unat n) (unat (rx_ack_len w)) < 65536 \<longrightarrow>
        recved_bytes (trace (snd (ack n w))) =
          recved_bytes (trace w) + min (unat n) (unat (rx_ack_len w)))"
proof -
  let ?b = "rx_ack_len w"
  have res: "ack n w =
     (min n ?b,
      w\<lparr>rx_ack_len := ?b - min n ?b,
        trace := trace w @
          (if min n ?b = 0 then []
           else [Tcp_recved (Some (ident p)) (ucast (min n ?b))])\<rparr>)"
    using held by (auto simp: ack_def Let_def min_def emit_def not_less)
  have m: "unat (min n ?b) = min (unat n) (unat ?b)"
    by (auto simp: min_def word_le_nat_alt)
  have left: "uint (rx_ack_len (snd (ack n w))) = max 0 (uint ?b - uint n)"
  proof (cases "n \<le> ?b")
    case True
    then have "uint (?b - n) = uint ?b - uint n"
      by (simp add: uint_sub_lem [symmetric] word_le_def)
    moreover from True have "uint n \<le> uint ?b"
      by (simp add: word_le_def)
    ultimately show ?thesis using True
      by (simp add: res min_def)
  next
    case False
    then have "uint ?b < uint n"
      by (simp add: word_le_def)
    with False show ?thesis
      by (simp add: res min_def)
  qed
  have ret: "unat (fst (ack n w)) = min (unat n) (unat ?b)"
    by (simp add: res m)
  have bytes: "recved_bytes (trace (snd (ack n w))) =
       recved_bytes (trace w) + min (unat n) (unat ?b) mod 65536"
  proof (cases "min n ?b = 0")
    case True
    then have "min (unat n) (unat ?b) = 0"
      using m by simp
    with True show ?thesis
      by (simp add: res)
  next
    case False
    then show ?thesis
      by (simp add: res recved_bytes_append unat_ucast_length m)
  qed
  from res left ret bytes show ?thesis
    by simp
qed

theorem ack_clamps_to_backlog_witness:
  "pcb (client0\<lparr>rx_ack_len := 40\<rparr>) = Some pcb0
   \<and> fst (ack 25 (client0\<lparr>rx_ack_len := 40\<rparr>)) = 25
   \<and> rx_ack_len (snd (ack 25 (client0\<lparr>rx_ack_len := 40\<rparr>))) = 15
   \<and> trace (snd (ack 25 (client0\<lparr>rx_ack_len := 40\<rparr>))) = [Tcp_recved (Some 1) 25]
   \<and> min (unat (25 :: u32)) (unat (rx_ack_len (client0\<lparr>rx_ack_len := 40\<rparr>))) < 65536
   \<and> recved_bytes (trace (snd (ack 25 (client0\<lparr>rx_ack_len := 40\<rparr>)))) = 25"
proof -
  let ?c = "client0\<lparr>rx_ack_len := 40\<rparr>"
  have held: "pcb ?c = Some pcb0"
    by (simp add: client0_def)
  have small: "min (unat (25 :: u32)) (unat (rx_ack_len ?c)) < 65536"
    by simp
  note th = ack_clamps_to_backlog [OF held, of 25]
  from th have "ack 25 ?c =
     (min 25 (rx_ack_len ?c),
      ?c\<lparr>rx_ack_len := rx_ack_len ?c - min 25 (rx_ack_len ?c),
        trace := trace ?c @
          (if min 25 (rx_ack_len ?c) = 0 then []
           else [Tcp_recved (Some (ident pcb0)) (ucast (min 25 (rx_ack_len ?c)))])\<rparr>)"
    by blast
  then have res: "ack 25 ?c =
      (25, ?c\<lparr>rx_ack_len := 15, trace := [Tcp_recved (Some 1) 25]\<rparr>)"
    by (simp add: client0_def pcb0_def)
  from th small have "recved_bytes (trace (snd (ack 25 ?c))) =
      recved_bytes (trace ?c) + min (unat (25 :: u32)) (unat (rx_ack_len ?c))"
    by blast
  then have bytes: "recved_bytes (trace (snd (ack 25 ?c))) = 25"
    by (simp add: client0_def)
  from held small bytes show ?thesis
    by (simp add: res)
qed

section \<open>Write pacing\<close>

lemma write_n_cannot_send: "\<not> canSend w \<Longrightarrow> write_n E data sz w = (0, w)"
  by (subst write_n.simps) (simp split: option.splits)

lemma write_n_window_short:
  assumes held: "pcb w = Some p" and est: "tcp_state p = 4"
    and room: "snd_buf p \<noteq> 0" "ucast (snd_buf p) < sz"
    and wr: "tcp_write E p (take (unat (snd_buf p)) d) = (ERR_OK, p\<lparr>snd_buf := 0\<rparr>)"
    and out: "tcp_output E (p\<lparr>snd_buf := 0\<rparr>) = (ERR_OK, p\<lparr>snd_buf := 0\<rparr>)"
  shows "write_n E (Some d) sz w =
     (ucast (snd_buf p),
      w\<lparr>pcb := Some (p\<lparr>snd_buf := 0\<rparr>), pcb_sent_at := clock w, pcb_busy := True,
        trace := trace w @
          [Tcp_write (ident p) (take (unat (snd_buf p)) d), Tcp_output (ident p)]\<rparr>)"
proof -
  let ?w3 = "w\<lparr>pcb := Some (p\<lparr>snd_buf := 0\<rparr>), pcb_sent_at := clock w, pcb_busy := True,
        trace := trace w @
          [Tcp_write (ident p) (take (unat (snd_buf p)) d), Tcp_output (ident p)]\<rparr>"
  have nz: "sz \<noteq> 0"
    using room(2) by auto
  show ?thesis
    apply (subst write_n.simps)
    using held est nz room wr out
    apply (simp add: Let_def emit_def unat_ucast_window write_n_cannot_send canSend_def
        space_def word_greater_zero_iff ucast_window_zero)
    done
qed


text \<open>
  C1. The handle is Established with a free send window of exactly 100 bytes, the payload
  has 250 bytes, every transport write and flush succeeds, and a write takes what it
  queues out of the window with nothing given back. Then \<open>write(data, 250)\<close> returns
  100: it queues the first 100 bytes, flushes, and marks a send in flight at the current
  time; the recursive call on the remaining 150 bytes returns 0 and changes nothing,
  because the window is now zero. So the log holds one write of 100 bytes and one flush.
\<close>

theorem write_window_100_payload_250:
  assumes held: "pcb w = Some p" and est: "tcp_state p = 4" and window: "snd_buf p = 100"
    and payload: "length d = 250"
    and writes: "\<forall>q bs. tcp_write E q bs = (ERR_OK, q\<lparr>snd_buf := snd_buf q - of_nat (length bs)\<rparr>)"
    and flushes: "\<forall>q. tcp_output E q = (ERR_OK, q)"
  shows "write_n E (Some d) 250 w =
     (100,
      w\<lparr>pcb := Some (p\<lparr>snd_buf := 0\<rparr>), pcb_sent_at := clock w, pcb_busy := True,
        trace := trace w @ [Tcp_write (ident p) (take 100 d), Tcp_output (ident p)]\<rparr>)
   \<and> write_n E (Some (drop 100 d)) 150 (snd (write_n E (Some d) 250 w)) =
       (0, snd (write_n E (Some d) 250 w))
   \<and> space (snd (write_n E (Some d) 250 w)) = 0"
proof -
  have u: "unat (snd_buf p) = 100"
    using window by simp
  have wr: "tcp_write E p (take (unat (snd_buf p)) d) = (ERR_OK, p\<lparr>snd_buf := 0\<rparr>)"
    using writes payload window by (simp add: u)
  have out: "tcp_output E (p\<lparr>snd_buf := 0\<rparr>) = (ERR_OK, p\<lparr>snd_buf := 0\<rparr>)"
    using flushes by simp
  have first: "write_n E (Some d) 250 w =
     (100,
      w\<lparr>pcb := Some (p\<lparr>snd_buf := 0\<rparr>), pcb_sent_at := clock w, pcb_busy := True,
        trace := trace w @ [Tcp_write (ident p) (take 100 d), Tcp_output (ident p)]\<rparr>)"
    using write_n_window_short [OF held est _ _ wr out, of 250] window
    by (simp add: u)
  have closed: "\<not> canSend (snd (write_n E (Some d) 250 w))"
    by (simp add: first canSend_def space_def)
  show ?thesis
    using first closed write_n_cannot_send [OF closed]
    by (simp add: canSend_def word_greater_zero_iff del: One_nat_def)
qed

theorem write_window_100_payload_250_witness:
  "pcb client0 = Some pcb0 \<and> tcp_state pcb0 = 4 \<and> snd_buf pcb0 = 100
   \<and> length d250 = 250
   \<and> write_n quiet_env (Some d250) 250 client0 =
       (100,
        client0\<lparr>pcb := Some (pcb0\<lparr>snd_buf := 0\<rparr>), pcb_sent_at := clock client0,
          pcb_busy := True,
          trace := trace client0 @ [Tcp_write (ident pcb0) (take 100 d250),
                                    Tcp_output (ident pcb0)]\<rparr>)
   \<and> write_n quiet_env (Some (drop 100 d250)) 150
        (snd (write_n quiet_env (Some d250) 250 client0)) =
       (0, snd (write_n quiet_env (Some d250) 250 client0))
   \<and> space (snd (write_n quiet_env (Some d250) 250 client0)) = 0"
proof -
  have held: "pcb client0 = Some pcb0"
    by (simp add: client0_def)
  have est: "tcp_state pcb0 = 4" and window: "snd_buf pcb0 = 100"
    by (simp_all add: pcb0_def)
  have payload: "length d250 = 250"
    by (simp add: d250_def)
  have writes: "\<forall>q bs. tcp_write quiet_env q bs =
      (ERR_OK, q\<lparr>snd_buf := snd_buf q - of_nat (length bs)\<rparr>)"
    by (simp add: quiet_env_def)
  have flushes: "\<forall>q. tcp_output quiet_env q = (ERR_OK, q)"
    by (simp add: quiet_env_def)
  from write_window_100_payload_250 [OF held est window payload writes flushes]
    held est window payload
  show ?thesis by blast
qed

section \<open>Callbacks under the handler discipline\<close>

lemma slot_simps [simp]: "slot None a = []" "slot (Some h) a = [(h, a)]"
  by (simp_all add: slot_def)

lemma invoke_simps [simp]:
  "invoke E None a w = w"
  "invoke E (Some h) a w = run_cb E h a (emit [Callback h a] w)"
  by (simp_all add: invoke_def)

lemma emit_fields [simp]:
  "trace (emit es w) = trace w @ es"
  "pcb (emit es w) = pcb w"
  "discard_cb (emit es w) = discard_cb w"
  "error_cb (emit es w) = error_cb w"
  "rx_last_packet (emit es w) = rx_last_packet w"
  by (simp_all add: emit_def)

lemma confined_quiet: "confined quiet_env"
  by (simp add: confined_def quiet_env_def)

lemma confined_ack0: "confined ack0_env"
  by (simp add: confined_def ack0_env_def quiet_env_def ack_def Let_def emit_def)

lemma confined_reentrant: "confined reentrant_env"
  by (simp add: confined_def reentrant_env_def close_def ack_def Let_def emit_def
      fired_append)

lemma fired_invoke:
  "confined E \<Longrightarrow> fired (trace (invoke E cb a w)) = fired (trace w) @ slot cb a"
  by (cases cb) (simp_all add: confined_def fired_append)

lemma discard_invoke: "confined E \<Longrightarrow> discard_cb (invoke E cb a w) = discard_cb w"
  by (cases cb) (simp_all add: confined_def)

lemma pcb_invoke: "confined E \<Longrightarrow> pcb w = None \<Longrightarrow> pcb (invoke E cb a w) = None"
  by (cases cb) (simp_all add: confined_def)

lemma prefix_invoke: "confined E \<Longrightarrow> prefix (trace w) (trace (invoke E cb a w))"
proof (cases cb)
  case None
  then show ?thesis by simp
next
  case (Some h)
  assume "confined E"
  then have "prefix (trace (emit [Callback h a] w)) (trace (run_cb E h a (emit [Callback h a] w)))"
    unfolding confined_def by blast
  then have "prefix (trace w @ [Callback h a]) (trace (invoke E cb a w))"
    using Some by simp
  then show ?thesis
    by (rule append_prefixD)
qed

section \<open>Transport-fatal errors\<close>

lemma priv_error_steps:
  assumes "confined E" and "pcb w = Some p"
  shows "priv_error E err w =
     invoke E (discard_cb w) OnDisconnect
       (invoke E (error_cb w) (OnError err)
          (w\<lparr>trace := trace w @
               [Tcp_arg (ident p) False, Tcp_sent (ident p) False, Tcp_recv (ident p) False,
                Tcp_err (ident p) False, Tcp_poll (ident p) False 0],
             pcb := None\<rparr>))"
  using assms by (simp add: priv_error_def Let_def discard_invoke emit_def)

text \<open>
  C4. On a transport-reported fatal error while a handle is held, with handlers under the
  discipline: the client clears the context and the sent, receive, error and poll
  callbacks on the handle (five transport calls, all with a null argument), drops the
  handle, and only then invokes \<open>onError\<close> and after it \<open>onDisconnect\<close>, each when
  installed. The five calls are the first entries added to the log, and the handlers run
  on a state that already lacks the handle; the callbacks invoked are the error handler
  (if any) followed by the disconnect handler (if any), so the disconnect notification
  does not depend on an error handler, and an error notification always comes first;
  the handle is gone at the end.
\<close>

theorem fatal_error_notifies_in_order:
  assumes conf: "confined E" and held: "pcb w = Some p"
  shows "priv_error E err w =
     invoke E (discard_cb w) OnDisconnect
       (invoke E (error_cb w) (OnError err)
          (w\<lparr>trace := trace w @
               [Tcp_arg (ident p) False, Tcp_sent (ident p) False, Tcp_recv (ident p) False,
                Tcp_err (ident p) False, Tcp_poll (ident p) False 0],
             pcb := None\<rparr>))
   \<and> prefix (trace w @
         [Tcp_arg (ident p) False, Tcp_sent (ident p) False, Tcp_recv (ident p) False,
          Tcp_err (ident p) False, Tcp_poll (ident p) False 0])
        (trace (priv_error E err w))
   \<and> fired (trace (priv_error E err w)) =
       fired (trace w) @ slot (error_cb w) (OnError err) @ slot (discard_cb w) OnDisconnect
   \<and> pcb (priv_error E err w) = None"
proof -
  let ?calls = "[Tcp_arg (ident p) False, Tcp_sent (ident p) False, Tcp_recv (ident p) False,
                Tcp_err (ident p) False, Tcp_poll (ident p) False 0]"
  let ?w1 = "w\<lparr>trace := trace w @ ?calls, pcb := None\<rparr>"
  let ?w2 = "invoke E (error_cb w) (OnError err) ?w1"
  have steps: "priv_error E err w = invoke E (discard_cb w) OnDisconnect ?w2"
    using conf held by (rule priv_error_steps)
  have "prefix (trace ?w1) (trace ?w2)"
    using conf by (rule prefix_invoke)
  moreover have "prefix (trace ?w2) (trace (invoke E (discard_cb w) OnDisconnect ?w2))"
    using conf by (rule prefix_invoke)
  ultimately have pre: "prefix (trace w @ ?calls) (trace (priv_error E err w))"
    using steps by simp
  have calls: "fired (trace (priv_error E err w)) =
       fired (trace w) @ slot (error_cb w) (OnError err) @ slot (discard_cb w) OnDisconnect"
    using conf by (simp add: steps fired_invoke fired_append)
  have "pcb ?w2 = None"
    using conf by (simp add: pcb_invoke)
  then have released: "pcb (priv_error E err w) = None"
    using conf by (simp add: steps pcb_invoke)
  from steps pre calls released show ?thesis
    by blast
qed

theorem fatal_error_notifies_in_order_witness:
  "confined quiet_env \<and> pcb client0 = Some pcb0
   \<and> priv_error quiet_env (- 9) client0 =
       client0\<lparr>pcb := None,
         trace := [Tcp_arg 1 False, Tcp_sent 1 False, Tcp_recv 1 False, Tcp_err 1 False,
                   Tcp_poll 1 False 0, Callback 13 (OnError (- 9)),
                   Callback 11 OnDisconnect]\<rparr>
   \<and> fired (trace (priv_error quiet_env (- 9) (client0\<lparr>error_cb := None\<rparr>))) =
       [(11, OnDisconnect)]
   \<and> pcb (priv_error quiet_env (- 9) client0) = None
   \<and> confined reentrant_env
   \<and> trace (priv_error reentrant_env (- 9) client0) =
       [Tcp_arg 1 False, Tcp_sent 1 False, Tcp_recv 1 False, Tcp_err 1 False,
        Tcp_poll 1 False 0, Callback 13 (OnError (- 9)), Tcp_recved None 0,
        Callback 11 OnDisconnect, Tcp_recved None 0]
   \<and> fired (trace (priv_error reentrant_env (- 9) client0)) =
       [(13, OnError (- 9)), (11, OnDisconnect)]"
proof -
  let ?c = "client0\<lparr>error_cb := None\<rparr>"
  let ?calls = "[Tcp_arg (ident pcb0) False, Tcp_sent (ident pcb0) False,
                 Tcp_recv (ident pcb0) False, Tcp_err (ident pcb0) False,
                 Tcp_poll (ident pcb0) False 0]"
  have held: "pcb client0 = Some pcb0" "pcb ?c = Some pcb0"
    by (simp_all add: client0_def)
  note a = fatal_error_notifies_in_order [OF confined_quiet held(1), of "- 9"]
  note b = fatal_error_notifies_in_order [OF confined_quiet held(2), of "- 9"]
  note r = fatal_error_notifies_in_order [OF confined_reentrant held(1), of "- 9"]
  from a have "priv_error quiet_env (- 9) client0 =
     invoke quiet_env (discard_cb client0) OnDisconnect
       (invoke quiet_env (error_cb client0) (OnError (- 9))
          (client0\<lparr>trace := trace client0 @ ?calls, pcb := None\<rparr>))"
    by blast
  then have "priv_error quiet_env (- 9) client0 =
       client0\<lparr>pcb := None,
         trace := [Tcp_arg 1 False, Tcp_sent 1 False, Tcp_recv 1 False, Tcp_err 1 False,
                   Tcp_poll 1 False 0, Callback 13 (OnError (- 9)),
                   Callback 11 OnDisconnect]\<rparr>"
    by (simp add: client0_def pcb0_def quiet_env_def emit_def)
  moreover from b have "fired (trace (priv_error quiet_env (- 9) ?c)) =
       fired (trace ?c) @ slot (error_cb ?c) (OnError (- 9)) @ slot (discard_cb ?c) OnDisconnect"
    by blast
  then have "fired (trace (priv_error quiet_env (- 9) ?c)) = [(11, OnDisconnect)]"
    by (simp add: client0_def)
  moreover have "pcb (priv_error quiet_env (- 9) client0) = None"
    using a by blast
  moreover note confined_reentrant
  moreover from r have "priv_error reentrant_env (- 9) client0 =
     invoke reentrant_env (discard_cb client0) OnDisconnect
       (invoke reentrant_env (error_cb client0) (OnError (- 9))
          (client0\<lparr>trace := trace client0 @ ?calls, pcb := None\<rparr>))"
    by blast
  then have "trace (priv_error reentrant_env (- 9) client0) =
       [Tcp_arg 1 False, Tcp_sent 1 False, Tcp_recv 1 False, Tcp_err 1 False,
        Tcp_poll 1 False 0, Callback 13 (OnError (- 9)), Tcp_recved None 0,
        Callback 11 OnDisconnect, Tcp_recved None 0]"
    by (simp add: client0_def pcb0_def reentrant_env_def close_def ack_def
        Let_def emit_def)
  moreover from r have "fired (trace (priv_error reentrant_env (- 9) client0)) =
       fired (trace client0) @ slot (error_cb client0) (OnError (- 9))
         @ slot (discard_cb client0) OnDisconnect"
    by blast
  then have "fired (trace (priv_error reentrant_env (- 9) client0)) =
       [(13, OnError (- 9)), (11, OnDisconnect)]"
    by (simp add: client0_def)
  ultimately show ?thesis
    using confined_quiet held(1) by blast
qed

section \<open>Teardown\<close>

lemma priv_close_None: "pcb w = None \<Longrightarrow> priv_close E w = (ERR_OK, w)"
  by (simp add: priv_close_def)

lemma priv_close_held:
  assumes "pcb w = Some p"
  shows "snd (priv_close E w) =
     invoke E (discard_cb w) OnDisconnect
       (w\<lparr>trace := trace w @
            [Tcp_arg (ident p) False, Tcp_sent (ident p) False, Tcp_recv (ident p) False,
             Tcp_err (ident p) False, Tcp_poll (ident p) False 0, Tcp_close (ident p)]
            @ (if tcp_close E (p\<lparr>cb_arg := False, cb_sent := False, cb_recv := False,
                                cb_err := False, cb_poll := False\<rparr>) \<noteq> ERR_OK
               then [Tcp_abort (ident p)] else []),
          pcb := None\<rparr>)"
    and "fst (priv_close E w) =
           (if tcp_close E (p\<lparr>cb_arg := False, cb_sent := False, cb_recv := False,
                              cb_err := False, cb_poll := False\<rparr>) \<noteq> ERR_OK
            then ERR_ABRT else ERR_OK)"
  using assms by (simp_all add: priv_close_def Let_def abort_def emit_def)

lemma fired_priv_close:
  "confined E \<Longrightarrow> fired (trace (snd (priv_close E w))) = fired (trace w) @ closing_calls w"
  by (cases "pcb w")
    (simp_all add: priv_close_None priv_close_held closing_calls_def fired_invoke fired_append)

lemma pcb_priv_close: "confined E \<Longrightarrow> pcb (snd (priv_close E w)) = None"
  by (cases "pcb w") (simp_all add: priv_close_None priv_close_held pcb_invoke)

section \<open>Deferred name resolution\<close>

lemma err_codes_distinct [simp]: "ERR_INPROGRESS \<noteq> ERR_OK" "ERR_ABRT \<noteq> ERR_OK"
  by (simp_all add: ERR_INPROGRESS_def ERR_OK_def ERR_ABRT_def)

text \<open>
  C7. A client without a handle calls \<open>connect(hostname, port)\<close> and the resolver
  answers that the resolution is in progress: the call returns true, records the port,
  and invokes no callback. When the resolver later delivers no address, the client
  invokes the error handler with the code -55 (labelled "DNS failed") and then the
  disconnect handler, each once when installed, and nothing else: \<open>onConnect\<close> is not
  invoked, and the client still holds no handle. Handlers are under the discipline.
\<close>

theorem failed_resolution_notifies:
  assumes conf: "confined E" and none: "pcb w = None"
    and pending: "dns_gethostbyname E host = (ERR_INPROGRESS, addr)"
  shows "connect_host E host port w =
       (True, w\<lparr>connect_port := port, trace := trace w @ [Dns_gethostbyname host]\<rparr>)
   \<and> fired (trace (priv_dns_found E None (snd (connect_host E host port w)))) =
       fired (trace w) @ slot (error_cb w) (OnError (- 55)) @ slot (discard_cb w) OnDisconnect
   \<and> pcb (priv_dns_found E None (snd (connect_host E host port w))) = None
   \<and> errorToString (- 55) = ''DNS failed''"
proof -
  let ?w1 = "w\<lparr>connect_port := port, trace := trace w @ [Dns_gethostbyname host]\<rparr>"
  let ?w2 = "invoke E (error_cb w) (OnError (- 55)) ?w1"
  have first: "connect_host E host port w = (True, ?w1)"
    using pending by (simp add: connect_host_def Let_def emit_def)
  have found: "priv_dns_found E None ?w1 = invoke E (discard_cb w) OnDisconnect ?w2"
    using conf by (simp add: priv_dns_found_def Let_def discard_invoke)
  have calls: "fired (trace (priv_dns_found E None ?w1)) =
       fired (trace w) @ slot (error_cb w) (OnError (- 55)) @ slot (discard_cb w) OnDisconnect"
    using conf by (simp add: found fired_invoke fired_append)
  have "pcb ?w2 = None"
    using conf none by (simp add: pcb_invoke)
  then have still: "pcb (priv_dns_found E None ?w1) = None"
    using conf by (simp add: found pcb_invoke)
  have label: "errorToString (- 55) = ''DNS failed''"
    by (simp add: errorToString_def)
  from first calls still label show ?thesis
    by simp
qed

theorem failed_resolution_notifies_witness:
  "confined quiet_env \<and> pcb client_idle = None
   \<and> dns_gethostbyname quiet_env ''example.org'' = (ERR_INPROGRESS, 0)
   \<and> fst (connect_host quiet_env ''example.org'' 80 client_idle)
   \<and> fired (trace (priv_dns_found quiet_env None
              (snd (connect_host quiet_env ''example.org'' 80 client_idle)))) =
       [(13, OnError (- 55)), (11, OnDisconnect)]
   \<and> pcb (priv_dns_found quiet_env None
              (snd (connect_host quiet_env ''example.org'' 80 client_idle))) = None"
proof -
  have none: "pcb client_idle = None"
    by (simp add: client_idle_def)
  have pending: "dns_gethostbyname quiet_env ''example.org'' = (ERR_INPROGRESS, 0)"
    by (simp add: quiet_env_def)
  note th = failed_resolution_notifies [OF confined_quiet none pending, of 80]
  from th have "fst (connect_host quiet_env ''example.org'' 80 client_idle)"
    by simp
  moreover from th
  have "fired (trace (priv_dns_found quiet_env None
              (snd (connect_host quiet_env ''example.org'' 80 client_idle)))) =
       fired (trace client_idle) @ slot (error_cb client_idle) (OnError (- 55))
         @ slot (discard_cb client_idle) OnDisconnect"
    by blast
  then have "fired (trace (priv_dns_found quiet_env None
              (snd (connect_host quiet_env ''example.org'' 80 client_idle)))) =
       [(13, OnError (- 55)), (11, OnDisconnect)]"
    by (simp add: client_idle_def client0_def)
  moreover from th
  have "pcb (priv_dns_found quiet_env None
              (snd (connect_host quiet_env ''example.org'' 80 client_idle))) = None"
    by blast
  ultimately show ?thesis
    using confined_quiet none pending by blast
qed

section \<open>The tick, action by action\<close>

lemma priv_poll_perform: "priv_poll E w = (ERR_OK, perform E (tick_action w) w)"
  by (simp add: priv_poll_def perform_def tick_action_def ack_timed_out_def
      idle_timed_out_def Let_def)

lemma closing_calls_close_pcb [simp]:
  "closing_calls (w\<lparr>close_pcb := b\<rparr>) = closing_calls w"
  by (simp add: closing_calls_def)

lemma fired_perform:
  assumes "confined E"
  shows "fired (trace (perform E (tick_action w) w)) = fired (trace w) @ tick_calls w"
proof (cases "tick_action w")
  case Deferred_close
  then show ?thesis
    using assms by (simp add: perform_def tick_calls_def fired_priv_close)
next
  case (Ack_timeout d)
  then show ?thesis
    using assms by (simp add: perform_def tick_calls_def fired_invoke)
next
  case Idle_close
  then show ?thesis
    using assms by (simp add: perform_def tick_calls_def fired_priv_close)
next
  case Poll
  then show ?thesis
    using assms by (simp add: perform_def tick_calls_def fired_invoke)
qed

section \<open>Release of the handle and the disconnect notification\<close>

lemma close_now:
  "close E True w =
     snd (priv_close E
            (emit [Tcp_recved (map_option ident (pcb w)) (ucast (rx_ack_len w))] w))"
  by (simp add: close_def Let_def)


text \<open>
  Every handle that the constructor gives a client carries the context and the error
  callback; \<open>connect\<close> registers the same two on a new handle before the transport
  hands it back through \<open>_connected\<close>.
\<close>

lemma constructed_hooked:
  "pcb (AsyncClient (Some q) m r0 p0 now) =
     Some (q\<lparr>cb_arg := True, cb_recv := True, cb_sent := True, cb_err := True,
             cb_poll := True\<rparr>)"
  by (simp add: AsyncClient_def)

text \<open>
  \<open>abort()\<close> itself invokes no callback: when the transport makes no report of the
  abort, or no error callback is registered on the handle, the handle is dropped and the
  log gains the transport call only.
\<close>

lemma abort_unreported:
  assumes "pcb w = Some p" and "tcp_abort E p = None \<or> \<not> cb_err p"
  shows "snd (abort E w) = w\<lparr>trace := trace w @ [Tcp_abort (ident p)], pcb := None\<rparr>"
  using assms by (auto simp: abort_def Let_def emit_def)



section \<open>Closing twice\<close>

text \<open>
  C5. What \<open>close(true)\<close> does on a client that holds no handle, as after a first
  \<open>close(true)\<close>: it calls the transport's \<open>tcp_recved\<close> with the null handle and the
  current backlog, and nothing else; no field of the client changes and no callback is
  invoked. The claim's "no transport operation" fails on this call, which the source
  issues before it looks at the handle.
\<close>

theorem close_again_reaches_transport:
  "pcb w = None \<Longrightarrow>
     close E True w = w\<lparr>trace := trace w @ [Tcp_recved None (ucast (rx_ack_len w))]\<rparr>"
  by (simp add: close_now priv_close_None emit_def)

theorem close_again_reaches_transport_witness:
  "pcb (close quiet_env True client0) = None
   \<and> trace (close quiet_env True client0) =
       [Tcp_recved (Some 1) 0, Tcp_arg 1 False, Tcp_sent 1 False, Tcp_recv 1 False,
        Tcp_err 1 False, Tcp_poll 1 False 0, Tcp_close 1, Callback 11 OnDisconnect]
   \<and> trace (close quiet_env True (close quiet_env True client0)) =
       [Tcp_recved (Some 1) 0, Tcp_arg 1 False, Tcp_sent 1 False, Tcp_recv 1 False,
        Tcp_err 1 False, Tcp_poll 1 False 0, Tcp_close 1, Callback 11 OnDisconnect,
        Tcp_recved None 0]"
proof -
  have once: "close quiet_env True client0 =
      client0\<lparr>pcb := None,
        trace := [Tcp_recved (Some 1) 0, Tcp_arg 1 False, Tcp_sent 1 False,
                  Tcp_recv 1 False, Tcp_err 1 False, Tcp_poll 1 False 0, Tcp_close 1,
                  Callback 11 OnDisconnect]\<rparr>"
    by (simp add: close_def priv_close_def Let_def emit_def client0_def pcb0_def
        quiet_env_def ERR_OK_def)
  have none: "pcb (close quiet_env True client0) = None"
    unfolding once by simp
  have backlog: "rx_ack_len (close quiet_env True client0) = 0"
    unfolding once by (simp add: client0_def)
  have first: "trace (close quiet_env True client0) =
       [Tcp_recved (Some 1) 0, Tcp_arg 1 False, Tcp_sent 1 False, Tcp_recv 1 False,
        Tcp_err 1 False, Tcp_poll 1 False 0, Tcp_close 1, Callback 11 OnDisconnect]"
    unfolding once by simp
  from close_again_reaches_transport [OF none, of quiet_env]
  have "trace (close quiet_env True (close quiet_env True client0)) =
      trace (close quiet_env True client0)
        @ [Tcp_recved None (ucast (rx_ack_len (close quiet_env True client0)))]"
    by simp
  then have second: "trace (close quiet_env True (close quiet_env True client0)) =
       [Tcp_recved (Some 1) 0, Tcp_arg 1 False, Tcp_sent 1 False, Tcp_recv 1 False,
        Tcp_err 1 False, Tcp_poll 1 False 0, Tcp_close 1, Callback 11 OnDisconnect,
        Tcp_recved None 0]"
    by (simp add: first backlog)
  from none first second show ?thesis
    by blast
qed

section \<open>The periodic tick\<close>

lemma ack_reached_iff: "ack_timeout_reached w \<longleftrightarrow> ack_timed_out w"
  by (simp add: ack_timeout_reached_def ack_timed_out_def word_le_nat_alt)

lemma idle_reached_iff:
  assumes "unat (rx_since_timeout w) * 1000 < 2 ^ 32"
  shows "idle_timeout_reached w \<longleftrightarrow> idle_timed_out w"
proof -
  have "unat (rx_since_timeout w) * unat (1000 :: u32) < 2 ^ LENGTH(32)"
    using assms by simp
  then have "unat (rx_since_timeout w * 1000) = unat (rx_since_timeout w) * unat (1000 :: u32)"
    by (simp only: unat_mult_lem)
  then have "unat (rx_since_timeout w * 1000) = unat (rx_since_timeout w) * 1000"
    by simp
  then show ?thesis
    by (simp add: idle_timeout_reached_def idle_timed_out_def word_le_nat_alt)
qed

lemma choice_agrees:
  "unat (rx_since_timeout w) * 1000 < 2 ^ 32 \<Longrightarrow> supervisor_choice w = tick_action w"
  by (simp add: supervisor_choice_def tick_action_def ack_reached_iff idle_reached_iff)

text \<open>
  C8, as stated, fails for an idle-receive threshold of 4294968 seconds: its value in
  milliseconds does not fit 32 bits, and the product that the source compares with the
  elapsed time is 704. One second after the last packet, with no close pending and no
  send in flight, the threshold is not reached and the first match is the poll; the
  tick closes the connection and invokes the disconnect handler instead.
\<close>

theorem tick_idle_threshold_wraps_counterexample:
  "rx_since_timeout client_wrap = 4294968
   \<and> unat (clock client_wrap - rx_last_packet client_wrap) = 1000
   \<and> \<not> idle_timeout_reached client_wrap
   \<and> supervisor_choice client_wrap = Poll
   \<and> pcb client_wrap = Some pcb0
   \<and> pcb (snd (priv_poll quiet_env client_wrap)) = None
   \<and> fired (trace (snd (priv_poll quiet_env client_wrap))) = [(11, OnDisconnect)]"
  by (simp add: client_wrap_def client0_def supervisor_choice_def ack_timeout_reached_def
      idle_timeout_reached_def priv_poll_def priv_close_def Let_def quiet_env_def emit_def
      ERR_OK_def)


text \<open>
  C8, amended. For an idle-receive threshold whose value in milliseconds fits the 32-bit
  clock (below 4294968 seconds) and handlers under the discipline, a tick performs
  exactly the action that the first match selects, and nothing of the others.
  (1) A pending deferred close: the request is cleared and the connection is torn down;
  a held handle has its five registrations cleared and is closed (aborted if the
  graceful close fails) and dropped, and the disconnect handler is invoked.
  (2) Else, with a send in flight, a nonzero acknowledgment threshold and an elapsed
  time that reaches it: the in-flight flag is cleared and \<open>onTimeout\<close> is invoked with
  the elapsed time, on a state whose handle and log are otherwise untouched.
  (3) Else, with a nonzero idle-receive threshold reached: the same teardown as in (1),
  at once. (4) Else \<open>onPoll\<close> is invoked on the unchanged state.
  The callbacks of the tick are those of the one action; in particular a tick with the
  acknowledgment time-out due invokes \<open>onTimeout\<close> only, whether or not the
  idle-receive time-out is due as well.
\<close>

theorem tick_first_match:
  assumes conf: "confined E" and fits: "unat (rx_since_timeout w) * 1000 < 2 ^ 32"
  shows "fst (priv_poll E w) = ERR_OK
   \<and> (supervisor_choice w = Deferred_close \<longrightarrow>
        (pcb w = None \<longrightarrow> snd (priv_poll E w) = w\<lparr>close_pcb := False\<rparr>)
        \<and> (\<forall>p. pcb w = Some p \<longrightarrow>
              snd (priv_poll E w) =
                invoke E (discard_cb w) OnDisconnect
                  (w\<lparr>close_pcb := False,
                     trace := trace w @
                       [Tcp_arg (ident p) False, Tcp_sent (ident p) False,
                        Tcp_recv (ident p) False, Tcp_err (ident p) False,
                        Tcp_poll (ident p) False 0, Tcp_close (ident p)]
                       @ (if tcp_close E (p\<lparr>cb_arg := False, cb_sent := False,
                                            cb_recv := False, cb_err := False,
                                            cb_poll := False\<rparr>) \<noteq> ERR_OK
                          then [Tcp_abort (ident p)] else []),
                     pcb := None\<rparr>))
        \<and> pcb (snd (priv_poll E w)) = None
        \<and> fired (trace (snd (priv_poll E w))) =
            fired (trace w) @ (if pcb w = None then [] else slot (discard_cb w) OnDisconnect))
   \<and> (\<forall>d. supervisor_choice w = Ack_timeout d \<longrightarrow>
        d = clock w - pcb_sent_at w
        \<and> snd (priv_poll E w) =
            invoke E (timeout_cb w) (OnTimeout d) (w\<lparr>pcb_busy := False\<rparr>)
        \<and> fired (trace (snd (priv_poll E w))) =
            fired (trace w) @ slot (timeout_cb w) (OnTimeout d))
   \<and> (supervisor_choice w = Idle_close \<longrightarrow>
        (pcb w = None \<longrightarrow> snd (priv_poll E w) = w)
        \<and> (\<forall>p. pcb w = Some p \<longrightarrow>
              snd (priv_poll E w) =
                invoke E (discard_cb w) OnDisconnect
                  (w\<lparr>trace := trace w @
                       [Tcp_arg (ident p) False, Tcp_sent (ident p) False,
                        Tcp_recv (ident p) False, Tcp_err (ident p) False,
                        Tcp_poll (ident p) False 0, Tcp_close (ident p)]
                       @ (if tcp_close E (p\<lparr>cb_arg := False, cb_sent := False,
                                            cb_recv := False, cb_err := False,
                                            cb_poll := False\<rparr>) \<noteq> ERR_OK
                          then [Tcp_abort (ident p)] else []),
                     pcb := None\<rparr>))
        \<and> pcb (snd (priv_poll E w)) = None
        \<and> fired (trace (snd (priv_poll E w))) =
            fired (trace w) @ (if pcb w = None then [] else slot (discard_cb w) OnDisconnect))
   \<and> (supervisor_choice w = Poll \<longrightarrow>
        snd (priv_poll E w) = invoke E (poll_cb w) OnPoll w
        \<and> fired (trace (snd (priv_poll E w))) = fired (trace w) @ slot (poll_cb w) OnPoll)"
proof -
  have agree: "supervisor_choice w = tick_action w"
    using fits by (rule choice_agrees)
  have res: "priv_poll E w = (ERR_OK, perform E (tick_action w) w)"
    by (rule priv_poll_perform)
  have calls: "fired (trace (snd (priv_poll E w))) = fired (trace w) @ tick_calls w"
    using conf by (simp add: res fired_perform)
  have status: "fst (priv_poll E w) = ERR_OK"
    by (simp add: res)
  have deferred: "(pcb w = None \<longrightarrow> snd (priv_poll E w) = w\<lparr>close_pcb := False\<rparr>)
        \<and> (\<forall>p. pcb w = Some p \<longrightarrow>
              snd (priv_poll E w) =
                invoke E (discard_cb w) OnDisconnect
                  (w\<lparr>close_pcb := False,
                     trace := trace w @
                       [Tcp_arg (ident p) False, Tcp_sent (ident p) False,
                        Tcp_recv (ident p) False, Tcp_err (ident p) False,
                        Tcp_poll (ident p) False 0, Tcp_close (ident p)]
                       @ (if tcp_close E (p\<lparr>cb_arg := False, cb_sent := False,
                                            cb_recv := False, cb_err := False,
                                            cb_poll := False\<rparr>) \<noteq> ERR_OK
                          then [Tcp_abort (ident p)] else []),
                     pcb := None\<rparr>))
        \<and> pcb (snd (priv_poll E w)) = None
        \<and> fired (trace (snd (priv_poll E w))) =
            fired (trace w) @ (if pcb w = None then [] else slot (discard_cb w) OnDisconnect)"
    if c: "supervisor_choice w = Deferred_close"
  proof -
    have ta: "tick_action w = Deferred_close"
      using c agree by simp
    have r: "snd (priv_poll E w) = snd (priv_close E (w\<lparr>close_pcb := False\<rparr>))"
      by (simp add: res ta perform_def)
    have "fired (trace (snd (priv_poll E w))) =
            fired (trace w) @ (if pcb w = None then [] else slot (discard_cb w) OnDisconnect)"
      using calls by (simp add: tick_calls_def ta closing_calls_def)
    moreover have "pcb (snd (priv_poll E w)) = None"
      using conf by (simp add: r pcb_priv_close)
    moreover have "snd (priv_poll E w) = w\<lparr>close_pcb := False\<rparr>" if "pcb w = None"
      using that by (simp add: r priv_close_None)
    moreover have "snd (priv_poll E w) =
                invoke E (discard_cb w) OnDisconnect
                  (w\<lparr>close_pcb := False,
                     trace := trace w @
                       [Tcp_arg (ident p) False, Tcp_sent (ident p) False,
                        Tcp_recv (ident p) False, Tcp_err (ident p) False,
                        Tcp_poll (ident p) False 0, Tcp_close (ident p)]
                       @ (if tcp_close E (p\<lparr>cb_arg := False, cb_sent := False,
                                            cb_recv := False, cb_err := False,
                                            cb_poll := False\<rparr>) \<noteq> ERR_OK
                          then [Tcp_abort (ident p)] else []),
                     pcb := None\<rparr>)"
      if "pcb w = Some p" for p
      using that by (simp add: r priv_close_held)
    ultimately show ?thesis
      by blast
  qed
  have idle: "(pcb w = None \<longrightarrow> snd (priv_poll E w) = w)
        \<and> (\<forall>p. pcb w = Some p \<longrightarrow>
              snd (priv_poll E w) =
                invoke E (discard_cb w) OnDisconnect
                  (w\<lparr>trace := trace w @
                       [Tcp_arg (ident p) False, Tcp_sent (ident p) False,
                        Tcp_recv (ident p) False, Tcp_err (ident p) False,
                        Tcp_poll (ident p) False 0, Tcp_close (ident p)]
                       @ (if tcp_close E (p\<lparr>cb_arg := False, cb_sent := False,
                                            cb_recv := False, cb_err := False,
                                            cb_poll := False\<rparr>) \<noteq> ERR_OK
                          then [Tcp_abort (ident p)] else []),
                     pcb := None\<rparr>))
        \<and> pcb (snd (priv_poll E w)) = None
        \<and> fired (trace (snd (priv_poll E w))) =
            fired (trace w) @ (if pcb w = None then [] else slot (discard_cb w) OnDisconnect)"
    if c: "supervisor_choice w = Idle_close"
  proof -
    have ta: "tick_action w = Idle_close"
      using c agree by simp
    have r: "snd (priv_poll E w) = snd (priv_close E w)"
      by (simp add: res ta perform_def)
    have "fired (trace (snd (priv_poll E w))) =
            fired (trace w) @ (if pcb w = None then [] else slot (discard_cb w) OnDisconnect)"
      using calls by (simp add: tick_calls_def ta closing_calls_def)
    moreover have "pcb (snd (priv_poll E w)) = None"
      using conf by (simp add: r pcb_priv_close)
    moreover have "snd (priv_poll E w) = w" if "pcb w = None"
      using that by (simp add: r priv_close_None)
    moreover have "snd (priv_poll E w) =
                invoke E (discard_cb w) OnDisconnect
                  (w\<lparr>trace := trace w @
                       [Tcp_arg (ident p) False, Tcp_sent (ident p) False,
                        Tcp_recv (ident p) False, Tcp_err (ident p) False,
                        Tcp_poll (ident p) False 0, Tcp_close (ident p)]
                       @ (if tcp_close E (p\<lparr>cb_arg := False, cb_sent := False,
                                            cb_recv := False, cb_err := False,
                                            cb_poll := False\<rparr>) \<noteq> ERR_OK
                          then [Tcp_abort (ident p)] else []),
                     pcb := None\<rparr>)"
      if "pcb w = Some p" for p
      using that by (simp add: r priv_close_held)
    ultimately show ?thesis
      by blast
  qed
  have timeout: "d = clock w - pcb_sent_at w
        \<and> snd (priv_poll E w) =
            invoke E (timeout_cb w) (OnTimeout d) (w\<lparr>pcb_busy := False\<rparr>)
        \<and> fired (trace (snd (priv_poll E w))) =
            fired (trace w) @ slot (timeout_cb w) (OnTimeout d)"
    if c: "supervisor_choice w = Ack_timeout d" for d
  proof -
    have ta: "tick_action w = Ack_timeout d"
      using c agree by simp
    have "d = clock w - pcb_sent_at w"
      using ta by (simp add: tick_action_def split: if_splits)
    moreover have "snd (priv_poll E w) =
            invoke E (timeout_cb w) (OnTimeout d) (w\<lparr>pcb_busy := False\<rparr>)"
      by (simp add: res ta perform_def)
    moreover have "fired (trace (snd (priv_poll E w))) =
            fired (trace w) @ slot (timeout_cb w) (OnTimeout d)"
      using calls by (simp add: tick_calls_def ta)
    ultimately show ?thesis
      by blast
  qed
  have poll: "snd (priv_poll E w) = invoke E (poll_cb w) OnPoll w
        \<and> fired (trace (snd (priv_poll E w))) = fired (trace w) @ slot (poll_cb w) OnPoll"
    if c: "supervisor_choice w = Poll"
  proof -
    have ta: "tick_action w = Poll"
      using c agree by simp
    have "snd (priv_poll E w) = invoke E (poll_cb w) OnPoll w"
      by (simp add: res ta perform_def)
    moreover have "fired (trace (snd (priv_poll E w))) =
        fired (trace w) @ slot (poll_cb w) OnPoll"
      using calls by (simp add: tick_calls_def ta)
    ultimately show ?thesis
      by blast
  qed
  from status deferred timeout idle poll show ?thesis
    by blast
qed


theorem tick_first_match_witness:
  "confined quiet_env
   \<and> unat (rx_since_timeout client_stalled) * 1000 < 2 ^ 32
   \<and> ack_timeout_reached client_stalled \<and> idle_timeout_reached client_stalled
   \<and> supervisor_choice client_stalled = Ack_timeout 5000
   \<and> snd (priv_poll quiet_env client_stalled) =
       client_stalled\<lparr>pcb_busy := False, trace := [Callback 15 (OnTimeout 5000)]\<rparr>
   \<and> supervisor_choice (snd (priv_poll quiet_env client_stalled)) = Idle_close
   \<and> snd (priv_poll quiet_env (snd (priv_poll quiet_env client_stalled))) =
       client_stalled\<lparr>pcb_busy := False,
         trace := [Callback 15 (OnTimeout 5000), Tcp_arg 1 False, Tcp_sent 1 False,
                   Tcp_recv 1 False, Tcp_err 1 False, Tcp_poll 1 False 0, Tcp_close 1,
                   Callback 11 OnDisconnect],
         pcb := None\<rparr>
   \<and> supervisor_choice (client0\<lparr>close_pcb := True\<rparr>) = Deferred_close
   \<and> snd (priv_poll quiet_env (client0\<lparr>close_pcb := True\<rparr>)) =
       client0\<lparr>close_pcb := False,
         trace := [Tcp_arg 1 False, Tcp_sent 1 False, Tcp_recv 1 False, Tcp_err 1 False,
                   Tcp_poll 1 False 0, Tcp_close 1, Callback 11 OnDisconnect],
         pcb := None\<rparr>
   \<and> supervisor_choice client0 = Poll
   \<and> snd (priv_poll quiet_env client0) = client0\<lparr>trace := [Callback 16 OnPoll]\<rparr>"
proof -
  let ?r = "snd (priv_poll quiet_env client_stalled)"
  let ?c = "client0\<lparr>close_pcb := True\<rparr>"
  have fits: "unat (rx_since_timeout client_stalled) * 1000 < 2 ^ 32"
    "unat (rx_since_timeout ?c) * 1000 < 2 ^ 32"
    "unat (rx_since_timeout client0) * 1000 < 2 ^ 32"
    by (simp_all add: client_stalled_def client0_def)
  have due: "ack_timeout_reached client_stalled" "idle_timeout_reached client_stalled"
    by (simp_all add: client_stalled_def client0_def ack_timeout_reached_def
        idle_timeout_reached_def)
  have choice: "supervisor_choice client_stalled = Ack_timeout 5000"
    by (simp add: supervisor_choice_def due) (simp add: client_stalled_def client0_def)
  from tick_first_match [OF confined_quiet fits(1)] choice
  have "?r = invoke quiet_env (timeout_cb client_stalled) (OnTimeout 5000)
               (client_stalled\<lparr>pcb_busy := False\<rparr>)"
    by blast
  then have first: "?r =
      client_stalled\<lparr>pcb_busy := False, trace := [Callback 15 (OnTimeout 5000)]\<rparr>"
    by (simp add: client_stalled_def client0_def quiet_env_def emit_def)
  have fits2: "unat (rx_since_timeout ?r) * 1000 < 2 ^ 32"
    unfolding first by (simp add: client_stalled_def client0_def)
  have choice2: "supervisor_choice ?r = Idle_close"
    unfolding first
    by (simp add: supervisor_choice_def ack_timeout_reached_def idle_timeout_reached_def
        client_stalled_def client0_def)
  have held2: "pcb ?r = Some pcb0"
    unfolding first by (simp add: client_stalled_def client0_def)
  from tick_first_match [OF confined_quiet fits2] choice2 held2
  have "snd (priv_poll quiet_env ?r) =
      invoke quiet_env (discard_cb ?r) OnDisconnect
        (?r\<lparr>trace := trace ?r @
             [Tcp_arg (ident pcb0) False, Tcp_sent (ident pcb0) False,
              Tcp_recv (ident pcb0) False, Tcp_err (ident pcb0) False,
              Tcp_poll (ident pcb0) False 0, Tcp_close (ident pcb0)]
             @ (if tcp_close quiet_env (pcb0\<lparr>cb_arg := False, cb_sent := False,
                                            cb_recv := False, cb_err := False,
                                            cb_poll := False\<rparr>) \<noteq> ERR_OK
                then [Tcp_abort (ident pcb0)] else []),
           pcb := None\<rparr>)"
    by blast
  then have second: "snd (priv_poll quiet_env ?r) =
       client_stalled\<lparr>pcb_busy := False,
         trace := [Callback 15 (OnTimeout 5000), Tcp_arg 1 False, Tcp_sent 1 False,
                   Tcp_recv 1 False, Tcp_err 1 False, Tcp_poll 1 False 0, Tcp_close 1,
                   Callback 11 OnDisconnect],
         pcb := None\<rparr>"
    unfolding first
    by (simp add: client_stalled_def client0_def pcb0_def quiet_env_def emit_def)
  have choice3: "supervisor_choice ?c = Deferred_close"
    by (simp add: supervisor_choice_def)
  have held3: "pcb ?c = Some pcb0"
    by (simp add: client0_def)
  from tick_first_match [OF confined_quiet fits(2)] choice3 held3
  have "snd (priv_poll quiet_env ?c) =
      invoke quiet_env (discard_cb ?c) OnDisconnect
        (?c\<lparr>close_pcb := False,
           trace := trace ?c @
             [Tcp_arg (ident pcb0) False, Tcp_sent (ident pcb0) False,
              Tcp_recv (ident pcb0) False, Tcp_err (ident pcb0) False,
              Tcp_poll (ident pcb0) False 0, Tcp_close (ident pcb0)]
             @ (if tcp_close quiet_env (pcb0\<lparr>cb_arg := False, cb_sent := False,
                                            cb_recv := False, cb_err := False,
                                            cb_poll := False\<rparr>) \<noteq> ERR_OK
                then [Tcp_abort (ident pcb0)] else []),
           pcb := None\<rparr>)"
    by blast
  then have third: "snd (priv_poll quiet_env ?c) =
       client0\<lparr>close_pcb := False,
         trace := [Tcp_arg 1 False, Tcp_sent 1 False, Tcp_recv 1 False, Tcp_err 1 False,
                   Tcp_poll 1 False 0, Tcp_close 1, Callback 11 OnDisconnect],
         pcb := None\<rparr>"
    by (simp add: client0_def pcb0_def quiet_env_def emit_def)
  have choice4: "supervisor_choice client0 = Poll"
    by (simp add: supervisor_choice_def ack_timeout_reached_def idle_timeout_reached_def
        client0_def)
  from tick_first_match [OF confined_quiet fits(3)] choice4
  have "snd (priv_poll quiet_env client0) = invoke quiet_env (poll_cb client0) OnPoll client0"
    by blast
  then have fourth: "snd (priv_poll quiet_env client0) =
      client0\<lparr>trace := [Callback 16 OnPoll]\<rparr>"
    by (simp add: client0_def quiet_env_def emit_def)
  from confined_quiet fits(1) due choice first choice2 second choice3 third choice4 fourth
  show ?thesis
    by simp
qed

section \<open>Inbound data and deferred acknowledgment\<close>

lemma emit_backlog [simp]:
  "rx_ack_len (emit es w) = rx_ack_len w"
  "ack_pcb (emit es w) = ack_pcb w"
  "recv_cb (emit es w) = recv_cb w"
  by (simp_all add: emit_def)

text \<open>
  C3, as stated, fails: \<open>ack\<close> never touches the automatic-acknowledgment flag that
  \<open>_recv\<close> sets before the callback and tests after it. With a handler that calls
  \<open>ack(0)\<close>, a delivery of 40 bytes is acknowledged to the transport at once
  (\<open>tcp_recved\<close> with 40), the backlog stays 0, and a later \<open>ack(25)\<close> finds
  nothing to acknowledge.
\<close>

theorem ack0_in_handler_does_not_opt_out_counterexample:
  "recv_cb client0 = Some 14 \<and> rx_ack_len client0 = 0 \<and> len pbuf40 = 40
   \<and> run_cb ack0_env 14 (OnData (payload pbuf40) 40) client0 = snd (ack 0 client0)
   \<and> rx_ack_len (snd (priv_recv ack0_env 1 [pbuf40] 0 client0)) = 0
   \<and> trace (snd (priv_recv ack0_env 1 [pbuf40] 0 client0)) =
       [Callback 14 (OnData (replicate 40 0) 40), Tcp_recved (Some 1) 40, Pbuf_free]
   \<and> recved_bytes (trace (snd (priv_recv ack0_env 1 [pbuf40] 0 client0))) = 40
   \<and> fst (ack 25 (snd (priv_recv ack0_env 1 [pbuf40] 0 client0))) = 0"
  by (simp add: priv_recv_def ack0_env_def quiet_env_def client0_def pbuf40_def ack_def
      Let_def emit_def)

text \<open>
  C3, amended. The backlog is 0 and the transport delivers one buffer of 40 bytes. The
  data handler clears the automatic-acknowledgment flag of the delivery, leaves the
  backlog alone and acknowledges nothing itself. Then after the delivery the backlog is
  40 and no byte was acknowledged to the transport for it; a subsequent \<open>ack(25)\<close>
  returns 25, leaves the backlog at 15 and makes one call of \<open>tcp_recved\<close> with 25,
  which on the handle that the client still holds acknowledges exactly 25 bytes.
\<close>

theorem opted_out_delivery_is_deferred:
  assumes installed: "recv_cb w = Some h" and size: "len b = 40"
    and backlog: "rx_ack_len w = 0"
    and optout: "\<forall>v. \<not> ack_pcb (run_cb E h (OnData (payload b) 40) v)
        \<and> rx_ack_len (run_cb E h (OnData (payload b) 40) v) = rx_ack_len v
        \<and> recved_bytes (trace (run_cb E h (OnData (payload b) 40) v)) =
            recved_bytes (trace v)"
  shows "rx_ack_len (snd (priv_recv E i [b] err w)) = 40
   \<and> recved_bytes (trace (snd (priv_recv E i [b] err w))) = recved_bytes (trace w)
   \<and> fst (ack 25 (snd (priv_recv E i [b] err w))) = 25
   \<and> rx_ack_len (snd (ack 25 (snd (priv_recv E i [b] err w)))) = 15
   \<and> trace (snd (ack 25 (snd (priv_recv E i [b] err w)))) =
       trace (snd (priv_recv E i [b] err w))
         @ [Tcp_recved (map_option ident (pcb (snd (priv_recv E i [b] err w)))) 25]
   \<and> (pcb (snd (priv_recv E i [b] err w)) \<noteq> None \<longrightarrow>
        recved_bytes (trace (snd (ack 25 (snd (priv_recv E i [b] err w))))) =
          recved_bytes (trace w) + 25)"
proof -
  let ?v = "emit [Callback h (OnData (payload b) 40)]
              (w\<lparr>rx_last_packet := clock w, ack_pcb := True\<rparr>)"
  let ?w2 = "run_cb E h (OnData (payload b) 40) ?v"
  let ?w1 = "snd (priv_recv E i [b] err w)"
  from optout have flag: "\<not> ack_pcb ?w2"
    and same: "rx_ack_len ?w2 = rx_ack_len ?v"
    and silent: "recved_bytes (trace ?w2) = recved_bytes (trace ?v)"
    by blast+
  have res: "?w1 = emit [Pbuf_free] (?w2\<lparr>rx_ack_len := rx_ack_len ?w2 + 40\<rparr>)"
    using installed size flag by (simp add: priv_recv_def Let_def)
  have kept: "rx_ack_len ?w2 = 0"
    using same backlog by simp
  have quiet: "recved_bytes (trace ?w2) = recved_bytes (trace w)"
    using silent by (simp add: recved_bytes_append)
  have a: "rx_ack_len ?w1 = 40"
    by (simp add: res kept)
  have b: "recved_bytes (trace ?w1) = recved_bytes (trace w)"
    by (simp add: res quiet recved_bytes_append)
  have c: "fst (ack 25 ?w1) = 25"
    by (simp add: ack_def Let_def a)
  have d: "rx_ack_len (snd (ack 25 ?w1)) = 15"
    by (simp add: ack_def Let_def a emit_def)
  have e: "trace (snd (ack 25 ?w1)) =
      trace ?w1 @ [Tcp_recved (map_option ident (pcb ?w1)) 25]"
    by (simp add: ack_def Let_def a)
  have f: "recved_bytes (trace (snd (ack 25 ?w1))) = recved_bytes (trace w) + 25"
    if "pcb ?w1 \<noteq> None"
    using that by (auto simp: e b recved_bytes_append)
  from a b c d e f show ?thesis
    by blast
qed

theorem opted_out_delivery_is_deferred_witness:
  "recv_cb client0 = Some 14 \<and> len pbuf40 = 40 \<and> rx_ack_len client0 = 0
   \<and> rx_ack_len (snd (priv_recv optout_env 1 [pbuf40] 0 client0)) = 40
   \<and> recved_bytes (trace (snd (priv_recv optout_env 1 [pbuf40] 0 client0))) = 0
   \<and> fst (ack 25 (snd (priv_recv optout_env 1 [pbuf40] 0 client0))) = 25
   \<and> rx_ack_len (snd (ack 25 (snd (priv_recv optout_env 1 [pbuf40] 0 client0)))) = 15
   \<and> pcb (snd (priv_recv optout_env 1 [pbuf40] 0 client0)) \<noteq> None
   \<and> recved_bytes (trace (snd (ack 25 (snd (priv_recv optout_env 1 [pbuf40] 0 client0)))))
       = 25"
proof -
  let ?w1 = "snd (priv_recv optout_env 1 [pbuf40] 0 client0)"
  have installed: "recv_cb client0 = Some 14" and backlog: "rx_ack_len client0 = 0"
    and start: "recved_bytes (trace client0) = 0"
    by (simp_all add: client0_def)
  have size: "len pbuf40 = 40"
    by (simp add: pbuf40_def)
  have optout: "\<forall>v. \<not> ack_pcb (run_cb optout_env 14 (OnData (payload pbuf40) 40) v)
        \<and> rx_ack_len (run_cb optout_env 14 (OnData (payload pbuf40) 40) v) = rx_ack_len v
        \<and> recved_bytes (trace (run_cb optout_env 14 (OnData (payload pbuf40) 40) v)) =
            recved_bytes (trace v)"
    by (simp add: optout_env_def)
  have held: "pcb ?w1 \<noteq> None"
    by (simp add: priv_recv_def Let_def optout_env_def client0_def pbuf40_def emit_def)
  note th = opted_out_delivery_is_deferred [OF installed size backlog optout, of 1 0]
  from th held have "recved_bytes (trace (snd (ack 25 ?w1))) = recved_bytes (trace client0) + 25"
    by blast
  then have bytes: "recved_bytes (trace (snd (ack 25 ?w1))) = 25"
    by (simp add: start)
  from th have "rx_ack_len ?w1 = 40"
    and "recved_bytes (trace ?w1) = recved_bytes (trace client0)"
    and "fst (ack 25 ?w1) = 25"
    and "rx_ack_len (snd (ack 25 ?w1)) = 15"
    by blast+
  with installed size backlog start held bytes show ?thesis
    by simp
qed

section \<open>Sent-confirmations and the idle-receive time-out\<close>











end
